theory Spec2Isabelle
  imports Main
begin

section \<open>Package logger: the data model\<close>

text \<open>
  The Go type \<open>Level\<close> is \<open>int\<close>. The package only compares levels and never does
  arithmetic on them, so mathematical integers carry every comparison of the machine type.
\<close>

type_synonym Level = int

definition LevelTrace :: Level where "LevelTrace = 0"
definition LevelDebug :: Level where "LevelDebug = 1"
definition LevelInfo :: Level where "LevelInfo = 2"
definition LevelWarn :: Level where "LevelWarn = 3"
definition LevelError :: Level where "LevelError = 4"
definition LevelCritical :: Level where "LevelCritical = 5"
definition LevelFatal :: Level where "LevelFatal = 6"
definition LevelNone :: Level where "LevelNone = 7"

definition DefaultLogThreshold :: Level where "DefaultLogThreshold = LevelInfo"
definition DefaultStdoutThreshold :: Level where "DefaultStdoutThreshold = LevelInfo"

lemmas Level_defs =
  LevelTrace_def LevelDebug_def LevelInfo_def LevelWarn_def LevelError_def
  LevelCritical_def LevelFatal_def LevelNone_def
  DefaultLogThreshold_def DefaultStdoutThreshold_def

text \<open>
  The values of \<open>io.Writer\<close> the package builds: \<open>ioutil.Discard\<close>, \<open>os.Stdout\<close>, the
  file opened by \<open>SetLogFile\<close>, and \<open>io.MultiWriter\<close> over a list of writers, which
  passes every write on to each member in order.
\<close>

datatype writer =
    Discard
  | Stdout
  | File string
  | MultiWriter "writer list"

text \<open>
  The operands of a call (\<open>v ...interface{}\<close>) and the formatting the standard
  library is asked for. The text itself is produced inside \<open>log.Logger\<close>; the model
  records which formatting routine was requested with which operands.
\<close>

datatype operand = Str string | Err string

datatype message =
    Sprint "operand list"
  | Sprintf string "operand list"
  | Sprintln "operand list"

text \<open>\<open>*log.Logger\<close> as built by \<open>log.New(out, prefix, flag)\<close>.\<close>

record log_Logger =
  log_out :: writer
  log_prefix :: string
  log_flag :: int

definition log_New :: "writer \<Rightarrow> string \<Rightarrow> int \<Rightarrow> log_Logger" where
  "log_New w p f = \<lparr>log_out = w, log_prefix = p, log_flag = f\<rparr>"

text \<open>The struct \<open>NotePad\<close>; a nil \<open>Logger\<close> pointer is \<open>None\<close>.\<close>

record NotePad =
  Handle :: writer
  Level :: Level
  Prefix :: string
  Logger :: "log_Logger option"

text \<open>
  One line handed to a logger's output: the logger that wrote it (its writer, prefix and
  flags fix where the line goes and what header it gets) and the requested text.
\<close>

record output_event =
  ev_logger :: log_Logger
  ev_text :: message

text \<open>
  The package-level variables, and \<open>written\<close>: every line the package's loggers have
  put out so far, oldest first. \<open>NotePads\<close> holds the seven notepads themselves; the
  variables \<open>TRACE\<close> to \<open>FATAL\<close> point at its entries, and are read below only in
  packages that hold all seven (\<open>pads_intact\<close>).
\<close>

record package =
  LogHandle :: writer
  OutHandle :: writer
  BothHandle :: writer
  Flag :: int
  NotePads :: "NotePad list"
  logThreshold :: Level
  outputThreshold :: Level
  written :: "output_event list"

definition TRACE :: "package \<Rightarrow> NotePad" where "TRACE st = NotePads st ! 0"
definition DEBUG :: "package \<Rightarrow> NotePad" where "DEBUG st = NotePads st ! 1"
definition INFO :: "package \<Rightarrow> NotePad" where "INFO st = NotePads st ! 2"
definition WARN :: "package \<Rightarrow> NotePad" where "WARN st = NotePads st ! 3"
definition ERROR :: "package \<Rightarrow> NotePad" where "ERROR st = NotePads st ! 4"
definition CRITICAL :: "package \<Rightarrow> NotePad" where "CRITICAL st = NotePads st ! 5"
definition FATAL :: "package \<Rightarrow> NotePad" where "FATAL st = NotePads st ! 6"

lemmas pad_defs = TRACE_def DEBUG_def INFO_def WARN_def ERROR_def CRITICAL_def FATAL_def

text \<open>How a call ends: it returns, the process exits, or a panic unwinds the stack.\<close>

datatype panic_value = PanicText message | NilDereference

datatype 'a outcome = Returned 'a | Exited int | Panicked panic_value

section \<open>The standard library's logger\<close>

text \<open>
  \<open>Output\<close> formats one line and writes it to the logger's writer. \<open>Print\<close>,
  \<open>Printf\<close> and \<open>Println\<close> call it and return; the \<open>Fatal\<close> family calls it and then
  \<open>os.Exit(1)\<close>; the \<open>Panic\<close> family calls it and then panics with the text.
\<close>

definition log_Output :: "log_Logger \<Rightarrow> message \<Rightarrow> package \<Rightarrow> package" where
  "log_Output l m st = st\<lparr>written := written st @ [\<lparr>ev_logger = l, ev_text = m\<rparr>]\<rparr>"

definition log_Print :: "log_Logger \<Rightarrow> message \<Rightarrow> package \<Rightarrow> unit outcome \<times> package" where
  "log_Print l m st = (Returned (), log_Output l m st)"

definition log_Fatal :: "log_Logger \<Rightarrow> message \<Rightarrow> package \<Rightarrow> unit outcome \<times> package" where
  "log_Fatal l m st = (Exited 1, log_Output l m st)"

definition log_Panic :: "log_Logger \<Rightarrow> message \<Rightarrow> package \<Rightarrow> unit outcome \<times> package" where
  "log_Panic l m st = (Panicked (PanicText m), log_Output l m st)"

text \<open>A method call through \<open>n.Logger\<close>: a nil pointer panics before anything is written.\<close>

definition via_Logger ::
  "NotePad \<Rightarrow> (log_Logger \<Rightarrow> package \<Rightarrow> unit outcome \<times> package) \<Rightarrow> package
    \<Rightarrow> unit outcome \<times> package" where
  "via_Logger n call st =
     (case Logger n of None \<Rightarrow> (Panicked NilDereference, st) | Some l \<Rightarrow> call l st)"

section \<open>The notepad's methods\<close>

definition checkLevel :: "NotePad \<Rightarrow> package \<Rightarrow> bool" where
  "checkLevel n st =
     (if Level n < outputThreshold st \<and> Level n < logThreshold st then False else True)"

definition Print :: "NotePad \<Rightarrow> operand list \<Rightarrow> package \<Rightarrow> unit outcome \<times> package" where
  "Print n v st =
     (if \<not> checkLevel n st then (Returned (), st)
      else via_Logger n (\<lambda>l. log_Print l (Sprint v)) st)"

definition Printf ::
  "NotePad \<Rightarrow> string \<Rightarrow> operand list \<Rightarrow> package \<Rightarrow> unit outcome \<times> package" where
  "Printf n format v st =
     (if \<not> checkLevel n st then (Returned (), st)
      else via_Logger n (\<lambda>l. log_Print l (Sprintf format v)) st)"

definition Println :: "NotePad \<Rightarrow> operand list \<Rightarrow> package \<Rightarrow> unit outcome \<times> package" where
  "Println n v st =
     (if \<not> checkLevel n st then (Returned (), st)
      else via_Logger n (\<lambda>l. log_Print l (Sprintln v)) st)"

definition Fatal :: "NotePad \<Rightarrow> operand list \<Rightarrow> package \<Rightarrow> unit outcome \<times> package" where
  "Fatal n v st =
     (if \<not> checkLevel n st then (Returned (), st)
      else via_Logger n (\<lambda>l. log_Fatal l (Sprint v)) st)"

definition Fatalf ::
  "NotePad \<Rightarrow> string \<Rightarrow> operand list \<Rightarrow> package \<Rightarrow> unit outcome \<times> package" where
  "Fatalf n format v st =
     (if \<not> checkLevel n st then (Returned (), st)
      else via_Logger n (\<lambda>l. log_Fatal l (Sprintf format v)) st)"

definition Fatalln :: "NotePad \<Rightarrow> operand list \<Rightarrow> package \<Rightarrow> unit outcome \<times> package" where
  "Fatalln n v st =
     (if \<not> checkLevel n st then (Returned (), st)
      else via_Logger n (\<lambda>l. log_Fatal l (Sprintln v)) st)"

definition Panic :: "NotePad \<Rightarrow> operand list \<Rightarrow> package \<Rightarrow> unit outcome \<times> package" where
  "Panic n v st =
     (if \<not> checkLevel n st then (Returned (), st)
      else via_Logger n (\<lambda>l. log_Panic l (Sprint v)) st)"

definition Panicf ::
  "NotePad \<Rightarrow> string \<Rightarrow> operand list \<Rightarrow> package \<Rightarrow> unit outcome \<times> package" where
  "Panicf n format v st =
     (if \<not> checkLevel n st then (Returned (), st)
      else via_Logger n (\<lambda>l. log_Panic l (Sprintf format v)) st)"

definition Panicln :: "NotePad \<Rightarrow> operand list \<Rightarrow> package \<Rightarrow> unit outcome \<times> package" where
  "Panicln n v st =
     (if \<not> checkLevel n st then (Returned (), st)
      else via_Logger n (\<lambda>l. log_Panic l (Sprintln v)) st)"

section \<open>Package variables and the name table\<close>

definition NotePads_vars :: "NotePad list" where
  "NotePads_vars =
     [\<lparr>Handle = Stdout, Level = LevelTrace, Prefix = ''[T]: '', Logger = None\<rparr>,
      \<lparr>Handle = Stdout, Level = LevelDebug, Prefix = ''[D]: '', Logger = None\<rparr>,
      \<lparr>Handle = Stdout, Level = LevelInfo, Prefix = ''[I]: '', Logger = None\<rparr>,
      \<lparr>Handle = Stdout, Level = LevelWarn, Prefix = ''[W]: '', Logger = None\<rparr>,
      \<lparr>Handle = Stdout, Level = LevelError, Prefix = ''[E]: '', Logger = None\<rparr>,
      \<lparr>Handle = Stdout, Level = LevelCritical, Prefix = ''[C]: '', Logger = None\<rparr>,
      \<lparr>Handle = Stdout, Level = LevelFatal, Prefix = ''[F]: '', Logger = None\<rparr>]"

text \<open>
  The variable initialisers. \<open>Flag\<close> is \<open>log.Ldate | log.Ltime\<close>, that is \<open>1 | 2\<close>.
\<close>

definition package_vars :: package where
  "package_vars =
     \<lparr>LogHandle = Discard,
      OutHandle = Stdout,
      BothHandle = MultiWriter [Discard, Stdout],
      Flag = 3,
      NotePads = NotePads_vars,
      logThreshold = DefaultLogThreshold,
      outputThreshold = DefaultStdoutThreshold,
      written = []\<rparr>"

definition LevelMatches_entries :: "(string \<times> Level) list" where
  "LevelMatches_entries =
     [(''TRACE'', LevelTrace),
      (''DEBUG'', LevelDebug),
      (''INFO'', LevelInfo),
      (''WARN'', LevelWarn),
      (''ERROR'', LevelError),
      (''CRITICAL'', LevelCritical),
      (''FATAL'', LevelFatal),
      (''NONE'', LevelNone)]"

definition LevelMatches :: "string \<rightharpoonup> Level" where
  "LevelMatches = map_of LevelMatches_entries"

section \<open>Rebuilding the notepads and the setters\<close>

definition initialize :: "package \<Rightarrow> package" where
  "initialize st =
     (let st1 = st\<lparr>BothHandle := MultiWriter [LogHandle st, OutHandle st]\<rparr>;
          pads1 =
            map (\<lambda>n.
                  if Level n < outputThreshold st1 \<and> Level n < logThreshold st1
                    then n\<lparr>Handle := Discard\<rparr>
                  else if Level n \<ge> outputThreshold st1 \<and> Level n \<ge> logThreshold st1
                    then n\<lparr>Handle := BothHandle st1\<rparr>
                  else if Level n \<ge> outputThreshold st1 \<and> Level n < logThreshold st1
                    then n\<lparr>Handle := OutHandle st1\<rparr>
                  else n\<lparr>Handle := LogHandle st1\<rparr>)
                (NotePads st1);
          pads2 =
            map (\<lambda>n. n\<lparr>Logger := Some (log_New (Handle n) (Prefix n) (Flag st1))\<rparr>) pads1
      in st1\<lparr>NotePads := pads2\<rparr>)"

definition init :: "package \<Rightarrow> package" where
  "init st = initialize st"

text \<open>The package as a program finds it: the variables initialised, then \<open>init\<close> run.\<close>

definition loaded :: package where
  "loaded = init package_vars"

definition levelCheck :: "Level \<Rightarrow> Level" where
  "levelCheck level =
     (if level \<le> LevelTrace then LevelTrace
      else if level \<ge> LevelFatal then LevelFatal
      else level)"

definition SetLogThreshold :: "Level \<Rightarrow> package \<Rightarrow> package" where
  "SetLogThreshold level st = initialize (st\<lparr>logThreshold := levelCheck level\<rparr>)"

definition SetStdoutThreshold :: "Level \<Rightarrow> package \<Rightarrow> package" where
  "SetStdoutThreshold level st = initialize (st\<lparr>outputThreshold := levelCheck level\<rparr>)"

text \<open>
  \<open>os.OpenFile\<close> is the operating system's answer, taken as a parameter: \<open>fs path\<close> is
  \<open>None\<close> when the file opens and the error's text when it does not.
\<close>

type_synonym filesystem = "string \<Rightarrow> string option"

definition SetLogFile ::
  "filesystem \<Rightarrow> string \<Rightarrow> package \<Rightarrow> string option outcome \<times> package" where
  "SetLogFile fs path st =
     (case fs path of
        Some err \<Rightarrow>
          (case Println (CRITICAL st) [Str ''Failed to open log file:'', Str path, Err err] st of
             (Returned _, st') \<Rightarrow> (Returned (Some err), st')
           | (Exited c, st') \<Rightarrow> (Exited c, st')
           | (Panicked p, st') \<Rightarrow> (Panicked p, st'))
      | None \<Rightarrow> (Returned None, initialize (st\<lparr>LogHandle := File path\<rparr>)))"

definition SetLogFlag :: "int \<Rightarrow> package \<Rightarrow> package" where
  "SetLogFlag flag st = initialize (st\<lparr>Flag := flag\<rparr>)"

section \<open>Vocabulary of the properties\<close>

text \<open>
  The four branches of the chain in \<open>initialize\<close>, named after the variable each one
  assigns to \<open>n.Handle\<close>: \<open>ioutil.Discard\<close>, \<open>BothHandle\<close>, \<open>OutHandle\<close>, \<open>LogHandle\<close>.
  \<open>resolution\<close> says which branch a level takes under the package's thresholds and
  \<open>destination_writer\<close> reads the variable of a branch.
\<close>

datatype destination = ToDiscard | ToBoth | ToOut | ToLog

definition resolution :: "Level \<Rightarrow> package \<Rightarrow> destination" where
  "resolution level st =
     (if level < outputThreshold st \<and> level < logThreshold st then ToDiscard
      else if level \<ge> outputThreshold st \<and> level \<ge> logThreshold st then ToBoth
      else if level \<ge> outputThreshold st \<and> level < logThreshold st then ToOut
      else ToLog)"

definition destination_writer :: "package \<Rightarrow> destination \<Rightarrow> writer" where
  "destination_writer st d =
     (case d of
        ToDiscard \<Rightarrow> Discard
      | ToBoth \<Rightarrow> BothHandle st
      | ToOut \<Rightarrow> OutHandle st
      | ToLog \<Rightarrow> LogHandle st)"

text \<open>
  The writers whose \<open>Write\<close> runs when a line is written to a writer: the writer itself
  and, for a multi-writer, those of each of its members in turn.
\<close>

fun receivers :: "writer \<Rightarrow> writer list" where
  "receivers (MultiWriter ws) = MultiWriter ws # concat (map receivers ws)"
| "receivers w = [w]"

text \<open>The lines a run has added to the output, given the package before and after.\<close>

definition emitted :: "package \<Rightarrow> package \<Rightarrow> output_event list" where
  "emitted st st' = drop (length (written st)) (written st')"

text \<open>The writers those lines were handed to, one per line.\<close>

definition destinations :: "package \<Rightarrow> package \<Rightarrow> writer list" where
  "destinations st st' = map (\<lambda>e. log_out (ev_logger e)) (emitted st st')"

text \<open>Two file systems: on one every file opens, on the other none does.\<close>

definition writable_fs :: filesystem where
  "writable_fs path = None"

definition read_only_fs :: filesystem where
  "read_only_fs path = Some ''permission denied''"

text \<open>
  \<open>pads_intact\<close>: the notepads are the seven of the package, each with the level and
  prefix it was constructed with. \<open>rebuilt\<close>: handles and loggers are what
  \<open>initialize\<close> makes of the current variables, as after \<open>init\<close> or any setter.
\<close>

definition pads_intact :: "package \<Rightarrow> bool" where
  "pads_intact st \<longleftrightarrow>
     map (\<lambda>n. (Level n, Prefix n)) (NotePads st) = map (\<lambda>n. (Level n, Prefix n)) NotePads_vars"

definition rebuilt :: "package \<Rightarrow> bool" where
  "rebuilt st \<longleftrightarrow> initialize st = st"

section \<open>What a rebuild leaves and what it sets\<close>

lemma initialize_LogHandle [simp]: "LogHandle (initialize st) = LogHandle st"
  by (simp add: initialize_def Let_def)
lemma initialize_OutHandle [simp]: "OutHandle (initialize st) = OutHandle st"
  by (simp add: initialize_def Let_def)
lemma initialize_BothHandle [simp]:
  "BothHandle (initialize st) = MultiWriter [LogHandle st, OutHandle st]"
  by (simp add: initialize_def Let_def)
lemma initialize_Flag [simp]: "Flag (initialize st) = Flag st"
  by (simp add: initialize_def Let_def)
lemma initialize_logThreshold [simp]: "logThreshold (initialize st) = logThreshold st"
  by (simp add: initialize_def Let_def)
lemma initialize_outputThreshold [simp]: "outputThreshold (initialize st) = outputThreshold st"
  by (simp add: initialize_def Let_def)
lemma initialize_written [simp]: "written (initialize st) = written st"
  by (simp add: initialize_def Let_def)

lemma resolution_initialize [simp]: "resolution level (initialize st) = resolution level st"
  by (simp add: resolution_def)

lemma NotePads_initialize:
  "NotePads (initialize st) =
     map (\<lambda>n. n\<lparr>Handle := destination_writer (initialize st) (resolution (Level n) st),
               Logger := Some (log_New (destination_writer (initialize st) (resolution (Level n) st))
                  (Prefix n) (Flag st))\<rparr>) (NotePads st)"
  by (simp add: initialize_def Let_def resolution_def destination_writer_def)

lemma initialize_idem: "initialize (initialize st) = initialize st"
  by (rule package.equality)
     (simp_all add: NotePads_initialize destination_writer_def split: destination.splits)

lemma rebuilt_initialize: "rebuilt (initialize st)"
  by (simp add: rebuilt_def initialize_idem)

lemma length_NotePads_initialize [simp]:
  "length (NotePads (initialize st)) = length (NotePads st)"
  by (simp add: NotePads_initialize)

lemma Level_NotePads_initialize: "map Level (NotePads (initialize st)) = map Level (NotePads st)"
  by (simp add: NotePads_initialize)

lemma Prefix_NotePads_initialize: "map Prefix (NotePads (initialize st)) = map Prefix (NotePads st)"
  by (simp add: NotePads_initialize)

lemma pads_intact_initialize [simp]: "pads_intact (initialize st) = pads_intact st"
  by (simp add: pads_intact_def NotePads_initialize o_def)

text \<open>A multi-writer is never one of its own members.\<close>

lemma MultiWriter_neq_first: "MultiWriter [a, b] \<noteq> a"
proof
  assume "MultiWriter [a, b] = a"
  then have "size (MultiWriter [a, b]) = size a" by simp
  then show False by simp
qed

lemma MultiWriter_neq_second: "MultiWriter [a, b] \<noteq> b"
proof
  assume "MultiWriter [a, b] = b"
  then have "size (MultiWriter [a, b]) = size b" by simp
  then show False by simp
qed

lemma self_receives: "w \<in> set (receivers w)"
  by (cases w) simp_all

section \<open>The package after loading\<close>

lemma NotePads_loaded:
  "NotePads loaded =
     [\<lparr>Handle = Discard, Level = LevelTrace, Prefix = ''[T]: '',
        Logger = Some (log_New Discard ''[T]: '' 3)\<rparr>,
      \<lparr>Handle = Discard, Level = LevelDebug, Prefix = ''[D]: '',
        Logger = Some (log_New Discard ''[D]: '' 3)\<rparr>,
      \<lparr>Handle = MultiWriter [Discard, Stdout], Level = LevelInfo, Prefix = ''[I]: '',
        Logger = Some (log_New (MultiWriter [Discard, Stdout]) ''[I]: '' 3)\<rparr>,
      \<lparr>Handle = MultiWriter [Discard, Stdout], Level = LevelWarn, Prefix = ''[W]: '',
        Logger = Some (log_New (MultiWriter [Discard, Stdout]) ''[W]: '' 3)\<rparr>,
      \<lparr>Handle = MultiWriter [Discard, Stdout], Level = LevelError, Prefix = ''[E]: '',
        Logger = Some (log_New (MultiWriter [Discard, Stdout]) ''[E]: '' 3)\<rparr>,
      \<lparr>Handle = MultiWriter [Discard, Stdout], Level = LevelCritical, Prefix = ''[C]: '',
        Logger = Some (log_New (MultiWriter [Discard, Stdout]) ''[C]: '' 3)\<rparr>,
      \<lparr>Handle = MultiWriter [Discard, Stdout], Level = LevelFatal, Prefix = ''[F]: '',
        Logger = Some (log_New (MultiWriter [Discard, Stdout]) ''[F]: '' 3)\<rparr>]"
  by (simp add: loaded_def init_def initialize_def Let_def package_vars_def NotePads_vars_def
      Level_defs)

lemma loaded_fields [simp]:
  "LogHandle loaded = Discard" "OutHandle loaded = Stdout"
  "BothHandle loaded = MultiWriter [Discard, Stdout]" "Flag loaded = 3"
  "logThreshold loaded = LevelInfo" "outputThreshold loaded = LevelInfo"
  "written loaded = []"
  by (simp_all add: loaded_def init_def package_vars_def Level_defs)

lemma rebuilt_loaded: "rebuilt loaded"
  by (simp add: loaded_def init_def rebuilt_initialize)

lemma pads_intact_loaded: "pads_intact loaded"
  unfolding loaded_def init_def pads_intact_initialize
  by (simp add: pads_intact_def package_vars_def)

section \<open>Writer resolution\<close>

text \<open>
  C1. After a rebuild, every notepad's handle is the writer of the branch its level takes,
  and the level takes the discard branch iff it is below both thresholds, the combined
  branch iff it is at or above both, the console branch iff it is at or above the stdout
  threshold and below the log threshold, and the log branch iff it is at or above the log
  threshold and below the stdout threshold. This holds for every level and every pair of
  thresholds.
\<close>

theorem initialize_resolves:
  assumes "n \<in> set (NotePads (initialize st))"
  shows "Handle n = destination_writer (initialize st) (resolution (Level n) st)
    \<and> (resolution (Level n) st = ToDiscard
         \<longleftrightarrow> Level n < logThreshold st \<and> Level n < outputThreshold st)
    \<and> (resolution (Level n) st = ToBoth
         \<longleftrightarrow> Level n \<ge> logThreshold st \<and> Level n \<ge> outputThreshold st)
    \<and> (resolution (Level n) st = ToOut
         \<longleftrightarrow> Level n \<ge> outputThreshold st \<and> Level n < logThreshold st)
    \<and> (resolution (Level n) st = ToLog
         \<longleftrightarrow> Level n \<ge> logThreshold st \<and> Level n < outputThreshold st)"
proof -
  from assms obtain m where m: "m \<in> set (NotePads st)"
    and n: "n = m\<lparr>Handle := destination_writer (initialize st) (resolution (Level m) st),
               Logger := Some (log_New (destination_writer (initialize st) (resolution (Level m) st))
                  (Prefix m) (Flag st))\<rparr>"
    by (auto simp: NotePads_initialize)
  from n have "Handle n = destination_writer (initialize st) (resolution (Level n) st)"
    by simp
  moreover have "resolution (Level n) st = ToDiscard
         \<longleftrightarrow> Level n < logThreshold st \<and> Level n < outputThreshold st"
    by (auto simp: resolution_def)
  moreover have "resolution (Level n) st = ToBoth
         \<longleftrightarrow> Level n \<ge> logThreshold st \<and> Level n \<ge> outputThreshold st"
    by (auto simp: resolution_def)
  moreover have "resolution (Level n) st = ToOut
         \<longleftrightarrow> Level n \<ge> outputThreshold st \<and> Level n < logThreshold st"
    by (auto simp: resolution_def)
  moreover have "resolution (Level n) st = ToLog
         \<longleftrightarrow> Level n \<ge> logThreshold st \<and> Level n < outputThreshold st"
    by (auto simp: resolution_def)
  ultimately show ?thesis by blast
qed

theorem initialize_resolves_witness:
  "WARN loaded \<in> set (NotePads (initialize package_vars))
   \<and> Handle (WARN loaded) = MultiWriter [Discard, Stdout]
   \<and> resolution (Level (WARN loaded)) package_vars = ToBoth
   \<and> Level (WARN loaded) \<ge> logThreshold package_vars
   \<and> Level (WARN loaded) \<ge> outputThreshold package_vars"
proof -
  have mem: "WARN loaded \<in> set (NotePads (initialize package_vars))"
    unfolding WARN_def NotePads_loaded
    using NotePads_loaded by (simp add: loaded_def init_def)
  have lv: "Level (WARN loaded) \<ge> logThreshold package_vars
      \<and> Level (WARN loaded) \<ge> outputThreshold package_vars"
    by (simp add: WARN_def NotePads_loaded package_vars_def Level_defs)
  from initialize_resolves [OF mem] lv
  have "resolution (Level (WARN loaded)) package_vars = ToBoth"
    and "Handle (WARN loaded)
       = destination_writer (initialize package_vars) (resolution (Level (WARN loaded)) package_vars)"
    by simp_all
  then have "Handle (WARN loaded) = MultiWriter [Discard, Stdout]"
    by (simp add: destination_writer_def package_vars_def)
  with mem lv \<open>resolution (Level (WARN loaded)) package_vars = ToBoth\<close> show ?thesis by simp
qed

text \<open>
  Read on the handle's value, the same four equivalences hold whenever the log writer, the
  console writer and \<open>ioutil.Discard\<close> are three different writers. With the default
  \<open>LogHandle = ioutil.Discard\<close> the log branch and the discard branch assign the same
  writer, so there the value alone does not tell the two branches apart.
\<close>

lemma initialize_Handle_iff:
  assumes "n \<in> set (NotePads (initialize st))"
    and "LogHandle st \<noteq> Discard" and "OutHandle st \<noteq> Discard"
    and "LogHandle st \<noteq> OutHandle st"
  shows "(Handle n = Discard \<longleftrightarrow> Level n < logThreshold st \<and> Level n < outputThreshold st)
    \<and> (Handle n = BothHandle (initialize st)
         \<longleftrightarrow> Level n \<ge> logThreshold st \<and> Level n \<ge> outputThreshold st)
    \<and> (Handle n = OutHandle (initialize st)
         \<longleftrightarrow> Level n \<ge> outputThreshold st \<and> Level n < logThreshold st)
    \<and> (Handle n = LogHandle (initialize st)
         \<longleftrightarrow> Level n \<ge> logThreshold st \<and> Level n < outputThreshold st)"
proof -
  from assms(1) obtain m where n: "n = m\<lparr>Handle := destination_writer (initialize st) (resolution (Level m) st),
               Logger := Some (log_New (destination_writer (initialize st) (resolution (Level m) st))
                  (Prefix m) (Flag st))\<rparr>"
    by (auto simp: NotePads_initialize)
  have h: "Handle n = destination_writer (initialize st) (resolution (Level n) st)"
    using n by simp
  note ne = MultiWriter_neq_first [of "LogHandle st" "OutHandle st"]
    MultiWriter_neq_second [of "LogHandle st" "OutHandle st"]
  show ?thesis
    unfolding h using assms(2-4) ne
    by (auto simp: destination_writer_def resolution_def)
qed

section \<open>The guard of the emission methods\<close>

text \<open>
  C3. If a notepad's level is strictly below the log threshold and strictly below the
  stdout threshold, then Print, Printf and Println return at once: the package, and with it
  the output, is unchanged, and the logger (where formatting happens) is never called.
\<close>

theorem below_both_thresholds_noop:
  assumes "Level n < logThreshold st" and "Level n < outputThreshold st"
  shows "Print n v st = (Returned (), st)
    \<and> Printf n format v st = (Returned (), st)
    \<and> Println n v st = (Returned (), st)"
  using assms by (simp add: Print_def Printf_def Println_def checkLevel_def)

theorem below_both_thresholds_noop_witness:
  "Level (DEBUG loaded) < logThreshold loaded \<and> Level (DEBUG loaded) < outputThreshold loaded
   \<and> Print (DEBUG loaded) [Str ''x''] loaded = (Returned (), loaded)
   \<and> Printf (DEBUG loaded) ''%v'' [Str ''x''] loaded = (Returned (), loaded)
   \<and> Println (DEBUG loaded) [Str ''x''] loaded = (Returned (), loaded)"
proof -
  have h: "Level (DEBUG loaded) < logThreshold loaded" "Level (DEBUG loaded) < outputThreshold loaded"
    by (simp_all add: DEBUG_def NotePads_loaded Level_defs)
  from below_both_thresholds_noop [OF h] h show ?thesis by simp
qed

section \<open>Clamping of thresholds\<close>

text \<open>
  C5. SetLogThreshold and SetStdoutThreshold clamp their argument into [Trace, Fatal]: a
  value at or below Trace gives the threshold Trace, a value at or above Fatal (None
  included) gives Fatal, a value in between is kept; the resulting threshold is never None.
\<close>

theorem threshold_setters_clamp:
  "(level \<le> LevelTrace \<longrightarrow>
      logThreshold (SetLogThreshold level st) = LevelTrace
      \<and> outputThreshold (SetStdoutThreshold level st) = LevelTrace)
   \<and> (level \<ge> LevelFatal \<longrightarrow>
      logThreshold (SetLogThreshold level st) = LevelFatal
      \<and> outputThreshold (SetStdoutThreshold level st) = LevelFatal)
   \<and> (LevelTrace < level \<and> level < LevelFatal \<longrightarrow>
      logThreshold (SetLogThreshold level st) = level
      \<and> outputThreshold (SetStdoutThreshold level st) = level)
   \<and> LevelTrace \<le> logThreshold (SetLogThreshold level st)
   \<and> logThreshold (SetLogThreshold level st) \<le> LevelFatal
   \<and> LevelTrace \<le> outputThreshold (SetStdoutThreshold level st)
   \<and> outputThreshold (SetStdoutThreshold level st) \<le> LevelFatal
   \<and> logThreshold (SetLogThreshold level st) \<noteq> LevelNone
   \<and> outputThreshold (SetStdoutThreshold level st) \<noteq> LevelNone"
  by (simp add: SetLogThreshold_def SetStdoutThreshold_def levelCheck_def Level_defs)

theorem threshold_setters_clamp_witness:
  "LevelNone \<ge> LevelFatal
   \<and> logThreshold (SetLogThreshold LevelNone loaded) = LevelFatal
   \<and> outputThreshold (SetStdoutThreshold LevelNone loaded) = LevelFatal
   \<and> (-1 :: Level) \<le> LevelTrace
   \<and> logThreshold (SetLogThreshold (-1) loaded) = LevelTrace
   \<and> outputThreshold (SetStdoutThreshold (-1) loaded) = LevelTrace
   \<and> LevelTrace < LevelWarn \<and> LevelWarn < LevelFatal
   \<and> logThreshold (SetLogThreshold LevelWarn loaded) = LevelWarn
   \<and> outputThreshold (SetStdoutThreshold LevelWarn loaded) = LevelWarn"
  using threshold_setters_clamp [of LevelNone loaded]
    threshold_setters_clamp [of "-1" loaded]
    threshold_setters_clamp [of LevelWarn loaded]
  by (simp add: Level_defs)

section \<open>Idempotence of the setters\<close>

text \<open>
  Calling a setter a second time with the same value changes nothing at all: the first
  call already stored the value and rebuilt the notepads from it.
\<close>

lemma SetLogThreshold_idem:
  "SetLogThreshold level (SetLogThreshold level st) = SetLogThreshold level st"
proof -
  let ?s = "initialize (st\<lparr>logThreshold := levelCheck level\<rparr>)"
  have same: "?s\<lparr>logThreshold := levelCheck level\<rparr> = ?s"
    by (rule package.equality) simp_all
  show ?thesis by (simp only: SetLogThreshold_def same initialize_idem)
qed

lemma SetStdoutThreshold_idem:
  "SetStdoutThreshold level (SetStdoutThreshold level st) = SetStdoutThreshold level st"
proof -
  let ?s = "initialize (st\<lparr>outputThreshold := levelCheck level\<rparr>)"
  have same: "?s\<lparr>outputThreshold := levelCheck level\<rparr> = ?s"
    by (rule package.equality) simp_all
  show ?thesis by (simp only: SetStdoutThreshold_def same initialize_idem)
qed

lemma SetLogFlag_idem:
  "SetLogFlag flag (SetLogFlag flag st) = SetLogFlag flag st"
proof -
  let ?s = "initialize (st\<lparr>Flag := flag\<rparr>)"
  have same: "?s\<lparr>Flag := flag\<rparr> = ?s"
    by (rule package.equality) simp_all
  show ?thesis by (simp only: SetLogFlag_def same initialize_idem)
qed

text \<open>
  C6. For SetLogThreshold, SetStdoutThreshold and SetLogFlag and every argument, calling the
  setter twice in succession with the same value leaves every notepad with the same handle
  as calling it once; indeed the whole package is the same.
\<close>

theorem setters_idempotent:
  "map Handle (NotePads (SetLogThreshold level (SetLogThreshold level st)))
     = map Handle (NotePads (SetLogThreshold level st))
   \<and> map Handle (NotePads (SetStdoutThreshold level (SetStdoutThreshold level st)))
     = map Handle (NotePads (SetStdoutThreshold level st))
   \<and> map Handle (NotePads (SetLogFlag flag (SetLogFlag flag st)))
     = map Handle (NotePads (SetLogFlag flag st))
   \<and> SetLogThreshold level (SetLogThreshold level st) = SetLogThreshold level st
   \<and> SetStdoutThreshold level (SetStdoutThreshold level st) = SetStdoutThreshold level st
   \<and> SetLogFlag flag (SetLogFlag flag st) = SetLogFlag flag st"
  by (simp add: SetLogThreshold_idem SetStdoutThreshold_idem SetLogFlag_idem)

section \<open>Emission\<close>

lemma emitted_same [simp]: "emitted st st = []"
  by (simp add: emitted_def)

lemma emitted_log_Output [simp]:
  "emitted st (log_Output l m st) = [\<lparr>ev_logger = l, ev_text = m\<rparr>]"
  by (simp add: emitted_def log_Output_def)

lemma log_Output_fields [simp]:
  "LogHandle (log_Output l m st) = LogHandle st"
  "OutHandle (log_Output l m st) = OutHandle st"
  "BothHandle (log_Output l m st) = BothHandle st"
  "Flag (log_Output l m st) = Flag st"
  "NotePads (log_Output l m st) = NotePads st"
  "logThreshold (log_Output l m st) = logThreshold st"
  "outputThreshold (log_Output l m st) = outputThreshold st"
  by (simp_all add: log_Output_def)

lemma checkLevel_resolution: "checkLevel n st \<longleftrightarrow> resolution (Level n) st \<noteq> ToDiscard"
  by (simp add: checkLevel_def resolution_def)

lemma pad_rebuilt:
  assumes "rebuilt st" and "n \<in> set (NotePads st)"
  shows "Handle n = destination_writer st (resolution (Level n) st)"
    and "Logger n = Some (log_New (Handle n) (Prefix n) (Flag st))"
proof -
  from assms(1) have eq: "initialize st = st" by (simp add: rebuilt_def)
  from assms(2) have "n \<in> set (NotePads (initialize st))" by (simp add: eq)
  then obtain m where
    n: "n = m\<lparr>Handle := destination_writer (initialize st) (resolution (Level m) st),
               Logger := Some (log_New (destination_writer (initialize st) (resolution (Level m) st))
                  (Prefix m) (Flag st))\<rparr>"
    by (auto simp: NotePads_initialize)
  from n show "Handle n = destination_writer st (resolution (Level n) st)"
    by (simp add: eq)
  from n show "Logger n = Some (log_New (Handle n) (Prefix n) (Flag st))"
    by simp
qed

lemma rebuilt_BothHandle:
  "rebuilt st \<Longrightarrow> BothHandle st = MultiWriter [LogHandle st, OutHandle st]"
  using initialize_BothHandle [of st] by (simp add: rebuilt_def)

text \<open>What each method does once the guard lets the call through.\<close>

lemma Print_family_passes:
  assumes "checkLevel n st" and "Logger n = Some l"
  shows "Print n v st = (Returned (), log_Output l (Sprint v) st)"
    and "Printf n format v st = (Returned (), log_Output l (Sprintf format v) st)"
    and "Println n v st = (Returned (), log_Output l (Sprintln v) st)"
  using assms by (simp_all add: Print_def Printf_def Println_def via_Logger_def log_Print_def)

lemma Fatal_family_passes:
  assumes "checkLevel n st" and "Logger n = Some l"
  shows "Fatal n v st = (Exited 1, log_Output l (Sprint v) st)"
    and "Fatalf n format v st = (Exited 1, log_Output l (Sprintf format v) st)"
    and "Fatalln n v st = (Exited 1, log_Output l (Sprintln v) st)"
  using assms by (simp_all add: Fatal_def Fatalf_def Fatalln_def via_Logger_def log_Fatal_def)

lemma Panic_family_passes:
  assumes "checkLevel n st" and "Logger n = Some l"
  shows "Panic n v st = (Panicked (PanicText (Sprint v)), log_Output l (Sprint v) st)"
    and "Panicf n format v st
           = (Panicked (PanicText (Sprintf format v)), log_Output l (Sprintf format v) st)"
    and "Panicln n v st = (Panicked (PanicText (Sprintln v)), log_Output l (Sprintln v) st)"
  using assms by (simp_all add: Panic_def Panicf_def Panicln_def via_Logger_def log_Panic_def)

lemma guard_blocks:
  assumes "\<not> checkLevel n st"
  shows "Print n v st = (Returned (), st)" and "Printf n format v st = (Returned (), st)"
    and "Println n v st = (Returned (), st)"
    and "Fatal n v st = (Returned (), st)" and "Fatalf n format v st = (Returned (), st)"
    and "Fatalln n v st = (Returned (), st)"
    and "Panic n v st = (Returned (), st)" and "Panicf n format v st = (Returned (), st)"
    and "Panicln n v st = (Returned (), st)"
  using assms
  by (simp_all add: Print_def Printf_def Println_def Fatal_def Fatalf_def Fatalln_def
      Panic_def Panicf_def Panicln_def)

lemma Print_family_rebuilt:
  assumes "rebuilt st" and "n \<in> set (NotePads st)"
  shows "emitted st (snd (Print n v st)) =
           (if resolution (Level n) st = ToDiscard then []
            else [\<lparr>ev_logger = log_New (Handle n) (Prefix n) (Flag st), ev_text = Sprint v\<rparr>])"
    and "emitted st (snd (Printf n format v st)) =
           (if resolution (Level n) st = ToDiscard then []
            else [\<lparr>ev_logger = log_New (Handle n) (Prefix n) (Flag st),
                   ev_text = Sprintf format v\<rparr>])"
    and "emitted st (snd (Println n v st)) =
           (if resolution (Level n) st = ToDiscard then []
            else [\<lparr>ev_logger = log_New (Handle n) (Prefix n) (Flag st), ev_text = Sprintln v\<rparr>])"
proof -
  note l = pad_rebuilt(2) [OF assms]
  show "emitted st (snd (Print n v st)) =
           (if resolution (Level n) st = ToDiscard then []
            else [\<lparr>ev_logger = log_New (Handle n) (Prefix n) (Flag st), ev_text = Sprint v\<rparr>])"
    by (cases "checkLevel n st")
       (simp_all add: Print_family_passes [OF _ l] guard_blocks checkLevel_resolution)
  show "emitted st (snd (Printf n format v st)) =
           (if resolution (Level n) st = ToDiscard then []
            else [\<lparr>ev_logger = log_New (Handle n) (Prefix n) (Flag st),
                   ev_text = Sprintf format v\<rparr>])"
    by (cases "checkLevel n st")
       (simp_all add: Print_family_passes [OF _ l] guard_blocks checkLevel_resolution)
  show "emitted st (snd (Println n v st)) =
           (if resolution (Level n) st = ToDiscard then []
            else [\<lparr>ev_logger = log_New (Handle n) (Prefix n) (Flag st), ev_text = Sprintln v\<rparr>])"
    by (cases "checkLevel n st")
       (simp_all add: Print_family_passes [OF _ l] guard_blocks checkLevel_resolution)
qed

text \<open>
  C10. For every notepad and every pair of thresholds, checkLevel returns false exactly when
  the chain in initialize takes the discard branch for the notepad's level. Consequently,
  for every notepad of the package that initialize returns, whatever the package it was
  given: the guard, read in the returned package, is false exactly when the level is below
  both thresholds of the given package, which is when initialize assigned
  \<open>ioutil.Discard\<close>; when the guard is true initialize assigned the combined, the console
  or the log writer; the notepad's logger was built on its handle; and Print, Printf and
  Println put out a line if and only if the branch taken was not the discard branch. When
  neither the log writer nor the console writer is \<open>ioutil.Discard\<close>, the guard is false
  exactly when the handle is \<open>ioutil.Discard\<close>.
\<close>

theorem checkLevel_agrees_with_initialize:
  "(checkLevel n st = False \<longleftrightarrow> resolution (Level n) st = ToDiscard)
   \<and> (n \<in> set (NotePads (initialize st)) \<longrightarrow>
        (checkLevel n (initialize st) = False
           \<longleftrightarrow> Level n < outputThreshold st \<and> Level n < logThreshold st)
        \<and> (checkLevel n (initialize st) = False \<longleftrightarrow> resolution (Level n) st = ToDiscard)
        \<and> Handle n = destination_writer (initialize st) (resolution (Level n) st)
        \<and> Logger n = Some (log_New (Handle n) (Prefix n) (Flag st))
        \<and> (checkLevel n (initialize st) = False \<longrightarrow> Handle n = Discard)
        \<and> (checkLevel n (initialize st) \<longrightarrow>
              Handle n = MultiWriter [LogHandle st, OutHandle st]
              \<or> Handle n = OutHandle st \<or> Handle n = LogHandle st)
        \<and> (LogHandle st \<noteq> Discard \<and> OutHandle st \<noteq> Discard \<longrightarrow>
              (checkLevel n (initialize st) = False \<longleftrightarrow> Handle n = Discard))
        \<and> (emitted (initialize st) (snd (Print n v (initialize st))) \<noteq> []
             \<longleftrightarrow> resolution (Level n) st \<noteq> ToDiscard)
        \<and> (emitted (initialize st) (snd (Printf n format v (initialize st))) \<noteq> []
             \<longleftrightarrow> resolution (Level n) st \<noteq> ToDiscard)
        \<and> (emitted (initialize st) (snd (Println n v (initialize st))) \<noteq> []
             \<longleftrightarrow> resolution (Level n) st \<noteq> ToDiscard))"
proof -
  let ?st = "initialize st"
  have guard: "checkLevel n st = False \<longleftrightarrow> resolution (Level n) st = ToDiscard"
    by (simp add: checkLevel_resolution)
  have after: "(checkLevel n ?st = False
           \<longleftrightarrow> Level n < outputThreshold st \<and> Level n < logThreshold st)
        \<and> (checkLevel n ?st = False \<longleftrightarrow> resolution (Level n) st = ToDiscard)
        \<and> Handle n = destination_writer ?st (resolution (Level n) st)
        \<and> Logger n = Some (log_New (Handle n) (Prefix n) (Flag st))
        \<and> (checkLevel n ?st = False \<longrightarrow> Handle n = Discard)
        \<and> (checkLevel n ?st \<longrightarrow>
              Handle n = MultiWriter [LogHandle st, OutHandle st]
              \<or> Handle n = OutHandle st \<or> Handle n = LogHandle st)
        \<and> (LogHandle st \<noteq> Discard \<and> OutHandle st \<noteq> Discard \<longrightarrow>
              (checkLevel n ?st = False \<longleftrightarrow> Handle n = Discard))
        \<and> (emitted ?st (snd (Print n v ?st)) \<noteq> [] \<longleftrightarrow> resolution (Level n) st \<noteq> ToDiscard)
        \<and> (emitted ?st (snd (Printf n format v ?st)) \<noteq> []
             \<longleftrightarrow> resolution (Level n) st \<noteq> ToDiscard)
        \<and> (emitted ?st (snd (Println n v ?st)) \<noteq> []
             \<longleftrightarrow> resolution (Level n) st \<noteq> ToDiscard)"
    if m: "n \<in> set (NotePads ?st)"
  proof -
    note r = rebuilt_initialize [of st]
    have g1: "checkLevel n ?st = False
           \<longleftrightarrow> Level n < outputThreshold st \<and> Level n < logThreshold st"
      by (simp add: checkLevel_def)
    have g2: "checkLevel n ?st = False \<longleftrightarrow> resolution (Level n) st = ToDiscard"
      by (simp add: checkLevel_resolution)
    have h: "Handle n = destination_writer ?st (resolution (Level n) st)"
      using pad_rebuilt(1) [OF r m] by simp
    have l: "Logger n = Some (log_New (Handle n) (Prefix n) (Flag st))"
      using pad_rebuilt(2) [OF r m] by simp
    have d: "checkLevel n ?st = False \<longrightarrow> Handle n = Discard"
      using g2 h by (simp add: destination_writer_def)
    have p: "checkLevel n ?st \<longrightarrow>
              Handle n = MultiWriter [LogHandle st, OutHandle st]
              \<or> Handle n = OutHandle st \<or> Handle n = LogHandle st"
      using g2 h by (cases "resolution (Level n) st") (simp_all add: destination_writer_def)
    have v: "LogHandle st \<noteq> Discard \<and> OutHandle st \<noteq> Discard \<longrightarrow>
              (checkLevel n ?st = False \<longleftrightarrow> Handle n = Discard)"
      using d p by auto
    have e: "emitted ?st (snd (Print n v ?st)) \<noteq> [] \<longleftrightarrow> resolution (Level n) st \<noteq> ToDiscard"
      "emitted ?st (snd (Printf n format v ?st)) \<noteq> []
             \<longleftrightarrow> resolution (Level n) st \<noteq> ToDiscard"
      "emitted ?st (snd (Println n v ?st)) \<noteq> [] \<longleftrightarrow> resolution (Level n) st \<noteq> ToDiscard"
      by (simp_all add: Print_family_rebuilt [OF r m])
    from g1 g2 h l d p v e show ?thesis by blast
  qed
  from guard after show ?thesis by blast
qed

section \<open>Fatal and Panic below the thresholds\<close>

text \<open>
  C2. A fatal-variant call is to end the process after writing, and an abort-variant call
  is to panic after writing, at every level and under every pair of thresholds. The six
  methods start with the same guard as Print, so this holds only when the guard passes
  (\<open>Fatal_family_passes\<close>, \<open>Panic_family_passes\<close>). In the package as loaded, with
  both thresholds Info, each of the six calls on TRACE returns normally: no exit, no panic,
  no output.
\<close>

theorem low_level_Fatal_and_Panic_return:
  "Fatal (TRACE loaded) v loaded = (Returned (), loaded)
   \<and> Fatalf (TRACE loaded) format v loaded = (Returned (), loaded)
   \<and> Fatalln (TRACE loaded) v loaded = (Returned (), loaded)
   \<and> Panic (TRACE loaded) v loaded = (Returned (), loaded)
   \<and> Panicf (TRACE loaded) format v loaded = (Returned (), loaded)
   \<and> Panicln (TRACE loaded) v loaded = (Returned (), loaded)"
proof -
  have "\<not> checkLevel (TRACE loaded) loaded"
    by (simp add: checkLevel_def TRACE_def NotePads_loaded Level_defs)
  then show ?thesis by (simp add: guard_blocks)
qed

section \<open>Level and Prefix are never written\<close>

lemma emission_keeps_NotePads:
  "NotePads (snd (Print n v st)) = NotePads st"
  "NotePads (snd (Printf n format v st)) = NotePads st"
  "NotePads (snd (Println n v st)) = NotePads st"
  "NotePads (snd (Fatal n v st)) = NotePads st"
  "NotePads (snd (Fatalf n format v st)) = NotePads st"
  "NotePads (snd (Fatalln n v st)) = NotePads st"
  "NotePads (snd (Panic n v st)) = NotePads st"
  "NotePads (snd (Panicf n format v st)) = NotePads st"
  "NotePads (snd (Panicln n v st)) = NotePads st"
  by (simp_all add: Print_def Printf_def Println_def Fatal_def Fatalf_def Fatalln_def
      Panic_def Panicf_def Panicln_def via_Logger_def log_Print_def log_Fatal_def log_Panic_def
      split: option.splits)

lemma snd_SetLogFile_failure:
  "fs path = Some err \<Longrightarrow>
     snd (SetLogFile fs path st)
       = snd (Println (CRITICAL st) [Str ''Failed to open log file:'', Str path, Err err] st)"
  by (simp add: SetLogFile_def split: prod.splits outcome.splits)

lemma SetLogFile_success:
  "fs path = None \<Longrightarrow>
     SetLogFile fs path st = (Returned None, initialize (st\<lparr>LogHandle := File path\<rparr>))"
  by (simp add: SetLogFile_def)

lemma SetLogFile_Level_Prefix:
  "map Level (NotePads (snd (SetLogFile fs path st))) = map Level (NotePads st)"
  "map Prefix (NotePads (snd (SetLogFile fs path st))) = map Prefix (NotePads st)"
  by (cases "fs path";
      simp add: snd_SetLogFile_failure SetLogFile_success emission_keeps_NotePads
        Level_NotePads_initialize Prefix_NotePads_initialize)+

text \<open>
  C9. The rebuild by initialize, each of SetLogThreshold, SetStdoutThreshold, SetLogFile and
  SetLogFlag, and each emission method leave the Level and the Prefix of every notepad as
  they were (the emission methods leave the notepads untouched altogether): only Handle and
  Logger are ever assigned.
\<close>

theorem Level_and_Prefix_never_change:
  "map Level (NotePads (initialize st)) = map Level (NotePads st)
   \<and> map Prefix (NotePads (initialize st)) = map Prefix (NotePads st)
   \<and> map Level (NotePads (SetLogThreshold level st)) = map Level (NotePads st)
   \<and> map Prefix (NotePads (SetLogThreshold level st)) = map Prefix (NotePads st)
   \<and> map Level (NotePads (SetStdoutThreshold level st)) = map Level (NotePads st)
   \<and> map Prefix (NotePads (SetStdoutThreshold level st)) = map Prefix (NotePads st)
   \<and> map Level (NotePads (snd (SetLogFile fs path st))) = map Level (NotePads st)
   \<and> map Prefix (NotePads (snd (SetLogFile fs path st))) = map Prefix (NotePads st)
   \<and> map Level (NotePads (SetLogFlag flag st)) = map Level (NotePads st)
   \<and> map Prefix (NotePads (SetLogFlag flag st)) = map Prefix (NotePads st)
   \<and> NotePads (snd (Print n v st)) = NotePads st
   \<and> NotePads (snd (Printf n format v st)) = NotePads st
   \<and> NotePads (snd (Println n v st)) = NotePads st
   \<and> NotePads (snd (Fatal n v st)) = NotePads st
   \<and> NotePads (snd (Fatalf n format v st)) = NotePads st
   \<and> NotePads (snd (Fatalln n v st)) = NotePads st
   \<and> NotePads (snd (Panic n v st)) = NotePads st
   \<and> NotePads (snd (Panicf n format v st)) = NotePads st
   \<and> NotePads (snd (Panicln n v st)) = NotePads st"
  by (simp add: SetLogThreshold_def SetStdoutThreshold_def SetLogFlag_def
      Level_NotePads_initialize Prefix_NotePads_initialize SetLogFile_Level_Prefix
      emission_keeps_NotePads)

section \<open>Scenarios\<close>

lemma pads_intact_nth:
  assumes "pads_intact st"
  shows "length (NotePads st) = 7"
    and "Level (TRACE st) = LevelTrace \<and> Prefix (TRACE st) = ''[T]: ''"
    and "Level (DEBUG st) = LevelDebug \<and> Prefix (DEBUG st) = ''[D]: ''"
    and "Level (INFO st) = LevelInfo \<and> Prefix (INFO st) = ''[I]: ''"
    and "Level (WARN st) = LevelWarn \<and> Prefix (WARN st) = ''[W]: ''"
    and "Level (ERROR st) = LevelError \<and> Prefix (ERROR st) = ''[E]: ''"
    and "Level (CRITICAL st) = LevelCritical \<and> Prefix (CRITICAL st) = ''[C]: ''"
    and "Level (FATAL st) = LevelFatal \<and> Prefix (FATAL st) = ''[F]: ''"
proof -
  let ?f = "\<lambda>n. (Level n, Prefix n)"
  from assms have eq: "map ?f (NotePads st) = map ?f NotePads_vars"
    by (simp add: pads_intact_def)
  from arg_cong [OF eq, of length] show len: "length (NotePads st) = 7"
    by (simp add: NotePads_vars_def)
  have nth: "?f (NotePads st ! i) = map ?f NotePads_vars ! i" if "i < 7" for i
    using that len arg_cong [OF eq, of "\<lambda>xs. xs ! i"] by simp
  show "Level (TRACE st) = LevelTrace \<and> Prefix (TRACE st) = ''[T]: ''"
    using nth [of 0] by (simp add: TRACE_def NotePads_vars_def)
  show "Level (DEBUG st) = LevelDebug \<and> Prefix (DEBUG st) = ''[D]: ''"
    using nth [of 1] by (simp add: DEBUG_def NotePads_vars_def)
  show "Level (INFO st) = LevelInfo \<and> Prefix (INFO st) = ''[I]: ''"
    using nth [of 2] by (simp add: INFO_def NotePads_vars_def)
  show "Level (WARN st) = LevelWarn \<and> Prefix (WARN st) = ''[W]: ''"
    using nth [of 3] by (simp add: WARN_def NotePads_vars_def)
  show "Level (ERROR st) = LevelError \<and> Prefix (ERROR st) = ''[E]: ''"
    using nth [of 4] by (simp add: ERROR_def NotePads_vars_def)
  show "Level (CRITICAL st) = LevelCritical \<and> Prefix (CRITICAL st) = ''[C]: ''"
    using nth [of 5] by (simp add: CRITICAL_def NotePads_vars_def)
  show "Level (FATAL st) = LevelFatal \<and> Prefix (FATAL st) = ''[F]: ''"
    using nth [of 6] by (simp add: FATAL_def NotePads_vars_def)
qed

lemma pads_intact_mem:
  assumes "pads_intact st"
  shows "TRACE st \<in> set (NotePads st)" "DEBUG st \<in> set (NotePads st)"
    "INFO st \<in> set (NotePads st)" "WARN st \<in> set (NotePads st)"
    "ERROR st \<in> set (NotePads st)" "CRITICAL st \<in> set (NotePads st)"
    "FATAL st \<in> set (NotePads st)"
  using pads_intact_nth(1) [OF assms] by (simp_all add: pad_defs)

lemma destinations_Print_family:
  assumes "rebuilt st" and "n \<in> set (NotePads st)"
  shows "destinations st (snd (Print n v st)) =
           (if resolution (Level n) st = ToDiscard then [] else [Handle n])"
    and "destinations st (snd (Printf n format v st)) =
           (if resolution (Level n) st = ToDiscard then [] else [Handle n])"
    and "destinations st (snd (Println n v st)) =
           (if resolution (Level n) st = ToDiscard then [] else [Handle n])"
  by (simp_all add: destinations_def Print_family_rebuilt [OF assms] log_New_def)

text \<open>
  C7. In a rebuilt package with its seven notepads: when both thresholds are Info, Print,
  Printf and Println on DEBUG return with the package unchanged (no output on any sink),
  and on INFO and on WARN they put out one line to the combined writer over the log sink and
  the console sink; when logThreshold is Error and outputThreshold is Info, on WARN they put
  out one line to the console sink alone and on ERROR one line to the combined writer.
\<close>

theorem threshold_scenarios:
  assumes "pads_intact st" and "rebuilt st"
  shows "(logThreshold st = LevelInfo \<and> outputThreshold st = LevelInfo \<longrightarrow>
            Print (DEBUG st) v st = (Returned (), st)
          \<and> Printf (DEBUG st) format v st = (Returned (), st)
          \<and> Println (DEBUG st) v st = (Returned (), st)
          \<and> destinations st (snd (Print (INFO st) v st))
              = [MultiWriter [LogHandle st, OutHandle st]]
          \<and> destinations st (snd (Printf (INFO st) format v st))
              = [MultiWriter [LogHandle st, OutHandle st]]
          \<and> destinations st (snd (Println (INFO st) v st))
              = [MultiWriter [LogHandle st, OutHandle st]]
          \<and> destinations st (snd (Print (WARN st) v st))
              = [MultiWriter [LogHandle st, OutHandle st]]
          \<and> destinations st (snd (Printf (WARN st) format v st))
              = [MultiWriter [LogHandle st, OutHandle st]]
          \<and> destinations st (snd (Println (WARN st) v st))
              = [MultiWriter [LogHandle st, OutHandle st]])
       \<and> (logThreshold st = LevelError \<and> outputThreshold st = LevelInfo \<longrightarrow>
            destinations st (snd (Print (WARN st) v st)) = [OutHandle st]
          \<and> destinations st (snd (Printf (WARN st) format v st)) = [OutHandle st]
          \<and> destinations st (snd (Println (WARN st) v st)) = [OutHandle st]
          \<and> destinations st (snd (Print (ERROR st) v st))
              = [MultiWriter [LogHandle st, OutHandle st]]
          \<and> destinations st (snd (Printf (ERROR st) format v st))
              = [MultiWriter [LogHandle st, OutHandle st]]
          \<and> destinations st (snd (Println (ERROR st) v st))
              = [MultiWriter [LogHandle st, OutHandle st]])"
proof -
  note lv = pads_intact_nth [OF assms(1)]
  note mem = pads_intact_mem [OF assms(1)]
  note both = rebuilt_BothHandle [OF assms(2)]
  have hI: "Handle (INFO st) = destination_writer st (resolution (Level (INFO st)) st)"
    and hW: "Handle (WARN st) = destination_writer st (resolution (Level (WARN st)) st)"
    and hE: "Handle (ERROR st) = destination_writer st (resolution (Level (ERROR st)) st)"
    using pad_rebuilt(1) [OF assms(2)] mem by simp_all
  have first: "Print (DEBUG st) v st = (Returned (), st)
          \<and> Printf (DEBUG st) format v st = (Returned (), st)
          \<and> Println (DEBUG st) v st = (Returned (), st)
          \<and> destinations st (snd (Print (INFO st) v st))
              = [MultiWriter [LogHandle st, OutHandle st]]
          \<and> destinations st (snd (Printf (INFO st) format v st))
              = [MultiWriter [LogHandle st, OutHandle st]]
          \<and> destinations st (snd (Println (INFO st) v st))
              = [MultiWriter [LogHandle st, OutHandle st]]
          \<and> destinations st (snd (Print (WARN st) v st))
              = [MultiWriter [LogHandle st, OutHandle st]]
          \<and> destinations st (snd (Printf (WARN st) format v st))
              = [MultiWriter [LogHandle st, OutHandle st]]
          \<and> destinations st (snd (Println (WARN st) v st))
              = [MultiWriter [LogHandle st, OutHandle st]]"
    if t: "logThreshold st = LevelInfo" "outputThreshold st = LevelInfo"
  proof -
    have d: "\<not> checkLevel (DEBUG st) st"
      using lv(3) t by (simp add: checkLevel_def Level_defs)
    have rI: "resolution (Level (INFO st)) st = ToBoth"
      and rW: "resolution (Level (WARN st)) st = ToBoth"
      using lv(4,5) t by (simp_all add: resolution_def Level_defs)
    show ?thesis
      using d rI rW hI hW both mem
      by (simp add: guard_blocks destinations_Print_family [OF assms(2)]
          destination_writer_def)
  qed
  have second: "destinations st (snd (Print (WARN st) v st)) = [OutHandle st]
          \<and> destinations st (snd (Printf (WARN st) format v st)) = [OutHandle st]
          \<and> destinations st (snd (Println (WARN st) v st)) = [OutHandle st]
          \<and> destinations st (snd (Print (ERROR st) v st))
              = [MultiWriter [LogHandle st, OutHandle st]]
          \<and> destinations st (snd (Printf (ERROR st) format v st))
              = [MultiWriter [LogHandle st, OutHandle st]]
          \<and> destinations st (snd (Println (ERROR st) v st))
              = [MultiWriter [LogHandle st, OutHandle st]]"
    if t: "logThreshold st = LevelError" "outputThreshold st = LevelInfo"
  proof -
    have rW: "resolution (Level (WARN st)) st = ToOut"
      and rE: "resolution (Level (ERROR st)) st = ToBoth"
      using lv(5,6) t by (simp_all add: resolution_def Level_defs)
    show ?thesis
      using rW rE hW hE both mem
      by (simp add: destinations_Print_family [OF assms(2)] destination_writer_def)
  qed
  from first second show ?thesis by blast
qed

lemma pads_intact_update [simp]:
  "pads_intact (st\<lparr>logThreshold := a\<rparr>) = pads_intact st"
  "pads_intact (st\<lparr>outputThreshold := a\<rparr>) = pads_intact st"
  "pads_intact (st\<lparr>Flag := f\<rparr>) = pads_intact st"
  "pads_intact (st\<lparr>LogHandle := w\<rparr>) = pads_intact st"
  "pads_intact (st\<lparr>written := es\<rparr>) = pads_intact st"
  by (simp_all add: pads_intact_def)

lemma setters_keep_invariants:
  "pads_intact (SetLogThreshold level st) = pads_intact st"
  "pads_intact (SetStdoutThreshold level st) = pads_intact st"
  "pads_intact (SetLogFlag flag st) = pads_intact st"
  "rebuilt (SetLogThreshold level st)"
  "rebuilt (SetStdoutThreshold level st)"
  "rebuilt (SetLogFlag flag st)"
  by (simp_all add: SetLogThreshold_def SetStdoutThreshold_def SetLogFlag_def rebuilt_initialize)

theorem threshold_scenarios_witness:
  "pads_intact loaded \<and> rebuilt loaded
   \<and> logThreshold loaded = LevelInfo \<and> outputThreshold loaded = LevelInfo
   \<and> Println (DEBUG loaded) [Str ''x''] loaded = (Returned (), loaded)
   \<and> destinations loaded (snd (Println (INFO loaded) [Str ''x''] loaded))
       = [MultiWriter [Discard, Stdout]]
   \<and> destinations loaded (snd (Println (WARN loaded) [Str ''x''] loaded))
       = [MultiWriter [Discard, Stdout]]
   \<and> pads_intact (SetLogThreshold LevelError loaded)
   \<and> rebuilt (SetLogThreshold LevelError loaded)
   \<and> logThreshold (SetLogThreshold LevelError loaded) = LevelError
   \<and> outputThreshold (SetLogThreshold LevelError loaded) = LevelInfo
   \<and> destinations (SetLogThreshold LevelError loaded)
        (snd (Println (WARN (SetLogThreshold LevelError loaded)) [Str ''x'']
               (SetLogThreshold LevelError loaded)))
       = [Stdout]
   \<and> destinations (SetLogThreshold LevelError loaded)
        (snd (Println (ERROR (SetLogThreshold LevelError loaded)) [Str ''x'']
               (SetLogThreshold LevelError loaded)))
       = [MultiWriter [Discard, Stdout]]"
proof -
  let ?s = "SetLogThreshold LevelError loaded"
  have p: "pads_intact ?s" and r: "rebuilt ?s"
    by (simp_all add: setters_keep_invariants pads_intact_loaded)
  have t: "logThreshold ?s = LevelError" "outputThreshold ?s = LevelInfo"
    "LogHandle ?s = Discard" "OutHandle ?s = Stdout"
    by (simp_all add: SetLogThreshold_def levelCheck_def Level_defs)
  from threshold_scenarios [OF pads_intact_loaded rebuilt_loaded, of "[Str ''x'']" "''%v''"]
    threshold_scenarios [OF p r, of "[Str ''x'']" "''%v''"]
    pads_intact_loaded rebuilt_loaded p r t
  show ?thesis by simp
qed

text \<open>
  Two instances of the agreement between guard and rebuild. After SetLogThreshold(Trace)
  and SetStdoutThreshold(Error), TRACE takes the log branch: the guard passes and a line is
  put out, to the log writer, which is still the default \<open>ioutil.Discard\<close>. In the package
  as loaded, DEBUG takes the discard branch: the guard blocks and nothing is put out.
\<close>

theorem checkLevel_agrees_with_initialize_witness:
  "TRACE (initialize (SetStdoutThreshold LevelError (SetLogThreshold LevelTrace loaded)))
     \<in> set (NotePads (initialize (SetStdoutThreshold LevelError (SetLogThreshold LevelTrace loaded))))
   \<and> checkLevel
        (TRACE (initialize (SetStdoutThreshold LevelError (SetLogThreshold LevelTrace loaded))))
        (initialize (SetStdoutThreshold LevelError (SetLogThreshold LevelTrace loaded)))
   \<and> resolution
        (Level (TRACE (initialize (SetStdoutThreshold LevelError (SetLogThreshold LevelTrace loaded)))))
        (SetStdoutThreshold LevelError (SetLogThreshold LevelTrace loaded)) = ToLog
   \<and> Handle (TRACE (initialize (SetStdoutThreshold LevelError (SetLogThreshold LevelTrace loaded))))
       = Discard
   \<and> emitted (initialize (SetStdoutThreshold LevelError (SetLogThreshold LevelTrace loaded)))
        (snd (Print
               (TRACE (initialize (SetStdoutThreshold LevelError (SetLogThreshold LevelTrace loaded))))
               [Str ''up'']
               (initialize (SetStdoutThreshold LevelError (SetLogThreshold LevelTrace loaded)))))
       \<noteq> []
   \<and> DEBUG loaded \<in> set (NotePads (initialize package_vars))
   \<and> checkLevel (DEBUG loaded) (initialize package_vars) = False
   \<and> resolution (Level (DEBUG loaded)) package_vars = ToDiscard
   \<and> Handle (DEBUG loaded) = Discard
   \<and> emitted (initialize package_vars)
        (snd (Println (DEBUG loaded) [Str ''up''] (initialize package_vars))) = []"
proof -
  let ?s = "SetStdoutThreshold LevelError (SetLogThreshold LevelTrace loaded)"
  have p: "pads_intact (initialize ?s)"
    by (simp add: setters_keep_invariants pads_intact_loaded)
  note m = pads_intact_mem(1) [OF p]
  have lv: "Level (TRACE (initialize ?s)) = LevelTrace"
    using pads_intact_nth(2) [OF p] by simp
  have t: "logThreshold ?s = LevelTrace" "outputThreshold ?s = LevelError"
    "LogHandle ?s = Discard"
    by (simp_all add: SetLogThreshold_def SetStdoutThreshold_def levelCheck_def Level_defs)
  have r: "resolution (Level (TRACE (initialize ?s))) ?s = ToLog"
    unfolding lv resolution_def t by (simp add: Level_defs)
  have m2: "DEBUG loaded \<in> set (NotePads (initialize package_vars))"
    using NotePads_loaded by (simp add: DEBUG_def loaded_def init_def)
  have r2: "resolution (Level (DEBUG loaded)) package_vars = ToDiscard"
    by (simp add: DEBUG_def NotePads_loaded resolution_def package_vars_def Level_defs)
  from checkLevel_agrees_with_initialize
         [of "TRACE (initialize ?s)" ?s "[Str ''up'']" "''%s''"]
       checkLevel_agrees_with_initialize
         [of "DEBUG loaded" package_vars "[Str ''up'']" "''%s''"]
       m r t(3) m2 r2
  show ?thesis by (simp add: destination_writer_def)
qed

section \<open>SetLogFile on a path that cannot be opened\<close>

lemma written_update_fields [simp]:
  "initialize (st\<lparr>written := es\<rparr>) = (initialize st)\<lparr>written := es\<rparr>"
  by (simp add: initialize_def Let_def)

lemma rebuilt_log_Output [simp]: "rebuilt (log_Output l m st) = rebuilt st"
proof -
  have "initialize (log_Output l m st) = log_Output l m (initialize st)"
    by (simp add: log_Output_def)
  moreover have "log_Output l m a = log_Output l m b \<longleftrightarrow> a = b" for a b :: package
  proof
    assume eq: "log_Output l m a = log_Output l m b"
    have "written a = written b"
      using arg_cong [OF eq, of written] by (simp add: log_Output_def)
    moreover have "LogHandle a = LogHandle b" "OutHandle a = OutHandle b"
      "BothHandle a = BothHandle b" "Flag a = Flag b" "NotePads a = NotePads b"
      "logThreshold a = logThreshold b" "outputThreshold a = outputThreshold b"
      using arg_cong [OF eq, of LogHandle] arg_cong [OF eq, of OutHandle]
        arg_cong [OF eq, of BothHandle] arg_cong [OF eq, of Flag]
        arg_cong [OF eq, of NotePads] arg_cong [OF eq, of logThreshold]
        arg_cong [OF eq, of outputThreshold]
      by simp_all
    ultimately show "a = b" by (simp add: package.equality)
  qed simp
  ultimately show ?thesis by (simp add: rebuilt_def)
qed

lemma SetLogFile_failure:
  assumes "fs path = Some err" and "Logger (CRITICAL st) = Some l"
  shows "SetLogFile fs path st =
           (Returned (Some err),
            if checkLevel (CRITICAL st) st
            then log_Output l (Sprintln [Str ''Failed to open log file:'', Str path, Err err]) st
            else st)"
  using assms
  by (simp add: SetLogFile_def Println_def via_Logger_def log_Print_def)

lemma receivers_BothHandle:
  "LogHandle st \<in> set (receivers (MultiWriter [LogHandle st, OutHandle st]))"
  "OutHandle st \<in> set (receivers (MultiWriter [LogHandle st, OutHandle st]))"
  by (simp_all add: self_receives)

text \<open>Both invariants survive SetLogFile, whether the file opens or not.\<close>

lemma pads_intact_cong: "NotePads a = NotePads b \<Longrightarrow> pads_intact a = pads_intact b"
  by (simp add: pads_intact_def)

lemma Println_keeps_rebuilt: "rebuilt st \<Longrightarrow> rebuilt (snd (Println n v st))"
  by (simp add: Println_def via_Logger_def log_Print_def split: option.splits)

lemma SetLogFile_keeps_invariants:
  "pads_intact (snd (SetLogFile fs path st)) = pads_intact st"
  "rebuilt st \<Longrightarrow> rebuilt (snd (SetLogFile fs path st))"
proof -
  show "pads_intact (snd (SetLogFile fs path st)) = pads_intact st"
    by (cases "fs path")
       (simp_all add: SetLogFile_success snd_SetLogFile_failure
          pads_intact_cong [OF emission_keeps_NotePads(3)])
  show "rebuilt (snd (SetLogFile fs path st))" if "rebuilt st"
    using that
    by (cases "fs path")
       (simp_all add: SetLogFile_success snd_SetLogFile_failure rebuilt_initialize
          Println_keeps_rebuilt)
qed

lemma Critical_guard:
  assumes "pads_intact st"
  shows "checkLevel (CRITICAL st) st
           \<longleftrightarrow> LevelCritical \<ge> logThreshold st \<or> LevelCritical \<ge> outputThreshold st"
  using pads_intact_nth(7) [OF assms] by (auto simp: checkLevel_def)

lemma log_sink_reached:
  assumes "rebuilt st" and "n \<in> set (NotePads st)" and "Level n \<ge> logThreshold st"
  shows "resolution (Level n) st \<noteq> ToDiscard"
    and "LogHandle st \<in> set (receivers (Handle n))"
proof -
  from assms(3) have r: "resolution (Level n) st = ToBoth \<or> resolution (Level n) st = ToLog"
    by (auto simp: resolution_def)
  then show "resolution (Level n) st \<noteq> ToDiscard" by auto
  from r pad_rebuilt(1) [OF assms(1,2)] rebuilt_BothHandle [OF assms(1)]
  show "LogHandle st \<in> set (receivers (Handle n))"
    by (auto simp: destination_writer_def self_receives)
qed

text \<open>
  C4 (as amended). In a rebuilt package with its seven notepads, SetLogFile on a path that
  cannot be opened returns the error to the caller and changes no package variable, so
  the log sink stays the previous one. Before returning it calls Println on CRITICAL with the
  diagnostic: the line is put out when Critical is at or above at least one of the two
  thresholds, and nothing is put out when both thresholds are above Critical. Afterwards,
  Print, Printf and Println on any notepad whose level is at or above the log threshold put
  out one line to the notepad's handle, and writing to that handle writes to the old log
  sink.
\<close>

theorem SetLogFile_failure_keeps_log_sink:
  assumes "pads_intact st" and "rebuilt st" and "fs path = Some err"
    and "st' = snd (SetLogFile fs path st)"
  shows "fst (SetLogFile fs path st) = Returned (Some err)
    \<and> LogHandle st' = LogHandle st \<and> OutHandle st' = OutHandle st
    \<and> BothHandle st' = BothHandle st \<and> Flag st' = Flag st \<and> NotePads st' = NotePads st
    \<and> logThreshold st' = logThreshold st \<and> outputThreshold st' = outputThreshold st
    \<and> emitted st st' =
        (if LevelCritical \<ge> logThreshold st \<or> LevelCritical \<ge> outputThreshold st
         then [\<lparr>ev_logger = log_New (Handle (CRITICAL st)) ''[C]: '' (Flag st),
                 ev_text = Sprintln [Str ''Failed to open log file:'', Str path, Err err]\<rparr>]
         else [])
    \<and> (\<forall>n \<in> set (NotePads st'). Level n \<ge> logThreshold st' \<longrightarrow>
          destinations st' (snd (Print n v st')) = [Handle n]
        \<and> destinations st' (snd (Printf n format v st')) = [Handle n]
        \<and> destinations st' (snd (Println n v st')) = [Handle n]
        \<and> LogHandle st \<in> set (receivers (Handle n)))"
proof -
  let ?m = "Sprintln [Str ''Failed to open log file:'', Str path, Err err]"
  let ?l = "log_New (Handle (CRITICAL st)) ''[C]: '' (Flag st)"
  have l: "Logger (CRITICAL st) = Some ?l"
    using pad_rebuilt(2) [OF assms(2) pads_intact_mem(6) [OF assms(1)]]
      pads_intact_nth(7) [OF assms(1)]
    by simp
  note res = SetLogFile_failure [where fs = fs and path = path and st = st, OF assms(3) l]
  have st': "st' = (if checkLevel (CRITICAL st) st then log_Output ?l ?m st else st)"
    by (simp add: assms(4) res)
  have ret: "fst (SetLogFile fs path st) = Returned (Some err)"
    by (simp add: res)
  have frame: "LogHandle st' = LogHandle st \<and> OutHandle st' = OutHandle st
    \<and> BothHandle st' = BothHandle st \<and> Flag st' = Flag st \<and> NotePads st' = NotePads st
    \<and> logThreshold st' = logThreshold st \<and> outputThreshold st' = outputThreshold st"
    by (simp add: st')
  have diag: "emitted st st' =
        (if LevelCritical \<ge> logThreshold st \<or> LevelCritical \<ge> outputThreshold st
         then [\<lparr>ev_logger = ?l, ev_text = ?m\<rparr>] else [])"
    using Critical_guard [OF assms(1)] by (simp add: st')
  have r': "rebuilt st'"
    using assms(2) by (simp add: st')
  have later: "destinations st' (snd (Print n v st')) = [Handle n]
        \<and> destinations st' (snd (Printf n format v st')) = [Handle n]
        \<and> destinations st' (snd (Println n v st')) = [Handle n]
        \<and> LogHandle st \<in> set (receivers (Handle n))"
    if m: "n \<in> set (NotePads st')" and ge: "Level n \<ge> logThreshold st'" for n
    using log_sink_reached [OF r' m ge] frame
    by (simp add: destinations_Print_family [OF r' m])
  from ret frame diag later show ?thesis by blast
qed

text \<open>
  C4, without the amendment, has the diagnostic emitted on every failure. With both
  thresholds set to Fatal the error is returned and nothing at all is put out.
\<close>

theorem SetLogFile_failure_silent_counterexample:
  "fst (SetLogFile read_only_fs ''/var/log/app.log''
         (SetStdoutThreshold LevelFatal (SetLogThreshold LevelFatal loaded)))
     = Returned (Some ''permission denied'')
   \<and> emitted (SetStdoutThreshold LevelFatal (SetLogThreshold LevelFatal loaded))
       (snd (SetLogFile read_only_fs ''/var/log/app.log''
              (SetStdoutThreshold LevelFatal (SetLogThreshold LevelFatal loaded))))
     = []
   \<and> written
       (snd (SetLogFile read_only_fs ''/var/log/app.log''
              (SetStdoutThreshold LevelFatal (SetLogThreshold LevelFatal loaded))))
     = []"
proof -
  let ?s = "SetStdoutThreshold LevelFatal (SetLogThreshold LevelFatal loaded)"
  have p: "pads_intact ?s" and r: "rebuilt ?s"
    by (simp_all add: setters_keep_invariants pads_intact_loaded)
  have t: "logThreshold ?s = LevelFatal" "outputThreshold ?s = LevelFatal" "written ?s = []"
    by (simp_all add: SetLogThreshold_def SetStdoutThreshold_def levelCheck_def Level_defs)
  have g: "\<not> checkLevel (CRITICAL ?s) ?s"
    using Critical_guard [OF p] t by (simp add: Level_defs)
  have f: "read_only_fs ''/var/log/app.log'' = Some ''permission denied''"
    by (simp add: read_only_fs_def)
  have l: "Logger (CRITICAL ?s)
      = Some (log_New (Handle (CRITICAL ?s)) (Prefix (CRITICAL ?s)) (Flag ?s))"
    by (rule pad_rebuilt(2) [OF r pads_intact_mem(6) [OF p]])
  from SetLogFile_failure
         [where fs = read_only_fs and path = "''/var/log/app.log''" and st = "?s", OF f l] g t
  show ?thesis by simp
qed

theorem SetLogFile_failure_keeps_log_sink_witness:
  "pads_intact (snd (SetLogFile writable_fs ''/var/log/a.log'' loaded))
   \<and> rebuilt (snd (SetLogFile writable_fs ''/var/log/a.log'' loaded))
   \<and> read_only_fs ''/etc/b.log'' = Some ''permission denied''
   \<and> LogHandle (snd (SetLogFile writable_fs ''/var/log/a.log'' loaded)) = File ''/var/log/a.log''
   \<and> fst (SetLogFile read_only_fs ''/etc/b.log''
            (snd (SetLogFile writable_fs ''/var/log/a.log'' loaded)))
       = Returned (Some ''permission denied'')
   \<and> LogHandle (snd (SetLogFile read_only_fs ''/etc/b.log''
            (snd (SetLogFile writable_fs ''/var/log/a.log'' loaded))))
       = File ''/var/log/a.log''
   \<and> emitted (snd (SetLogFile writable_fs ''/var/log/a.log'' loaded))
        (snd (SetLogFile read_only_fs ''/etc/b.log''
            (snd (SetLogFile writable_fs ''/var/log/a.log'' loaded))))
       = [\<lparr>ev_logger = log_New (MultiWriter [File ''/var/log/a.log'', Stdout]) ''[C]: '' 3,
           ev_text = Sprintln [Str ''Failed to open log file:'', Str ''/etc/b.log'',
                               Err ''permission denied'']\<rparr>]
   \<and> ERROR (snd (SetLogFile writable_fs ''/var/log/a.log'' loaded))
       \<in> set (NotePads (snd (SetLogFile read_only_fs ''/etc/b.log''
            (snd (SetLogFile writable_fs ''/var/log/a.log'' loaded)))))
   \<and> Level (ERROR (snd (SetLogFile writable_fs ''/var/log/a.log'' loaded)))
       \<ge> logThreshold (snd (SetLogFile read_only_fs ''/etc/b.log''
            (snd (SetLogFile writable_fs ''/var/log/a.log'' loaded))))
   \<and> destinations
        (snd (SetLogFile read_only_fs ''/etc/b.log''
            (snd (SetLogFile writable_fs ''/var/log/a.log'' loaded))))
        (snd (Println (ERROR (snd (SetLogFile writable_fs ''/var/log/a.log'' loaded)))
               [Str ''disk full'']
               (snd (SetLogFile read_only_fs ''/etc/b.log''
                 (snd (SetLogFile writable_fs ''/var/log/a.log'' loaded))))))
       = [MultiWriter [File ''/var/log/a.log'', Stdout]]
   \<and> File ''/var/log/a.log''
       \<in> set (receivers (Handle (ERROR (snd (SetLogFile writable_fs ''/var/log/a.log'' loaded)))))"
proof -
  let ?s = "snd (SetLogFile writable_fs ''/var/log/a.log'' loaded)"
  let ?s' = "snd (SetLogFile read_only_fs ''/etc/b.log'' ?s)"
  have s: "?s = initialize (loaded\<lparr>LogHandle := File ''/var/log/a.log''\<rparr>)"
    by (simp add: SetLogFile_def writable_fs_def)
  have p: "pads_intact ?s" and r: "rebuilt ?s"
    by (simp_all add: s rebuilt_initialize pads_intact_loaded)
  have f: "read_only_fs ''/etc/b.log'' = Some ''permission denied''"
    by (simp add: read_only_fs_def)
  have t: "LogHandle ?s = File ''/var/log/a.log''" "OutHandle ?s = Stdout" "Flag ?s = 3"
    "logThreshold ?s = LevelInfo" "outputThreshold ?s = LevelInfo"
    by (simp_all add: s)
  have e: "Level (ERROR ?s) = LevelError" and m: "ERROR ?s \<in> set (NotePads ?s)"
    and c: "Level (CRITICAL ?s) = LevelCritical" and mc: "CRITICAL ?s \<in> set (NotePads ?s)"
    using pads_intact_nth(6,7) [OF p] pads_intact_mem(5,6) [OF p] by simp_all
  have hc: "Handle (CRITICAL ?s) = MultiWriter [File ''/var/log/a.log'', Stdout]"
    using pad_rebuilt(1) [OF r mc] rebuilt_BothHandle [OF r] c t
    by (simp add: resolution_def destination_writer_def Level_defs)
  have he: "Handle (ERROR ?s) = MultiWriter [File ''/var/log/a.log'', Stdout]"
    using pad_rebuilt(1) [OF r m] rebuilt_BothHandle [OF r] e t
    by (simp add: resolution_def destination_writer_def Level_defs)
  note inst = SetLogFile_failure_keeps_log_sink
      [where fs = read_only_fs and path = "''/etc/b.log''" and st = "?s"
         and v = "[Str ''disk full'']" and format = "''%v''", OF p r f refl]
  from inst have pads: "NotePads ?s' = NotePads ?s" and lt: "logThreshold ?s' = logThreshold ?s"
    by simp_all
  from inst m e t pads lt
  have later: "destinations ?s' (snd (Println (ERROR ?s) [Str ''disk full''] ?s'))
                 = [Handle (ERROR ?s)]
      \<and> LogHandle ?s \<in> set (receivers (Handle (ERROR ?s)))"
    by (simp add: Level_defs)
  from inst p r f t e m hc he pads lt later show ?thesis
    by (simp add: Level_defs)
qed

section \<open>The level-name table\<close>

text \<open>
  C8. The table has exactly the eight keys TRACE, DEBUG, INFO, WARN, ERROR, CRITICAL, FATAL
  and NONE, spelled in upper case; looked up in that order they give the eight levels
  Trace, Debug, Info, Warn, Error, Critical, Fatal, None, which ascend strictly; a name in
  another case is not a key.
\<close>

theorem LevelMatches_table:
  "dom LevelMatches =
     {''TRACE'', ''DEBUG'', ''INFO'', ''WARN'', ''ERROR'', ''CRITICAL'', ''FATAL'', ''NONE''}
   \<and> map LevelMatches
        [''TRACE'', ''DEBUG'', ''INFO'', ''WARN'', ''ERROR'', ''CRITICAL'', ''FATAL'', ''NONE'']
      = map Some
          [LevelTrace, LevelDebug, LevelInfo, LevelWarn, LevelError, LevelCritical,
           LevelFatal, LevelNone]
   \<and> LevelTrace < LevelDebug \<and> LevelDebug < LevelInfo \<and> LevelInfo < LevelWarn
   \<and> LevelWarn < LevelError \<and> LevelError < LevelCritical \<and> LevelCritical < LevelFatal
   \<and> LevelFatal < LevelNone
   \<and> LevelMatches ''trace'' = None \<and> LevelMatches ''Info'' = None"
proof -
  have d: "dom LevelMatches = fst ` set LevelMatches_entries"
    unfolding LevelMatches_def by (rule dom_map_of_conv_image_fst)
  have keys: "fst ` set LevelMatches_entries =
     {''TRACE'', ''DEBUG'', ''INFO'', ''WARN'', ''ERROR'', ''CRITICAL'', ''FATAL'', ''NONE''}"
    by (simp add: LevelMatches_entries_def)
  have vals: "map LevelMatches
        [''TRACE'', ''DEBUG'', ''INFO'', ''WARN'', ''ERROR'', ''CRITICAL'', ''FATAL'', ''NONE'']
      = map Some
          [LevelTrace, LevelDebug, LevelInfo, LevelWarn, LevelError, LevelCritical,
           LevelFatal, LevelNone]"
    by (simp add: LevelMatches_def LevelMatches_entries_def)
  have ord: "LevelTrace < LevelDebug \<and> LevelDebug < LevelInfo \<and> LevelInfo < LevelWarn
   \<and> LevelWarn < LevelError \<and> LevelError < LevelCritical \<and> LevelCritical < LevelFatal
   \<and> LevelFatal < LevelNone"
    by (simp add: Level_defs)
  have low: "LevelMatches ''trace'' = None \<and> LevelMatches ''Info'' = None"
    by (simp add: LevelMatches_def LevelMatches_entries_def)
  from d keys vals ord low show ?thesis by simp
qed

end
